theory Spec2Isabelle
  imports Main "HOL-Library.Word" "HOL-Library.Sublist"
begin

section \<open>The Agora: the in-memory store of store.js\<close>

text \<open>
  The module keeps four collections (posts, arguments by post, the tag vocabulary, votes by
  argument) in module variables and mirrors them to localStorage after every mutation.
  Here the collections are the fields of a record that every operation takes and returns.

  Modelling decisions, all of them visible in the definitions below:
  \<^item> A JavaScript string is the list of its UTF-16 code units, so \<open>length\<close> is
    \<open>.length\<close> and \<open>take\<close> is \<open>.slice(0, n)\<close>.
  \<^item> A JavaScript number is a double. The counters of a vote record and the steelman
    count of an argument are stored values that \<open>++\<close>, \<open>--\<close> and \<open>+=\<close> change
    in place: they are the integers that a double holds, and \<open>jsAdd\<close> rounds a sum as
    the double does (every integer up to \<open>2^53\<close> in magnitude is exact). The counters of
    a post count the operations of a run and are exact below \<open>2^53\<close>; they are counted
    in \<open>int\<close>. A timestamp is the number of milliseconds since the epoch.
  \<^item> \<open>uid()\<close> and \<open>new Date()\<close> read the clock and the random generator: every
    operation that calls them takes the values they return as an argument of type \<open>gen\<close>.
  \<^item> The object \<open>args\<close> is enumerated by \<open>toggleSteelman\<close>, so it is an association
    list in the enumeration order of its keys; \<open>votes\<close> is only ever indexed, so it is a map.
    Keys are looked up among the entries that the module stored. At a name that every
    object inherits (\<open>inheritedName\<close>, such as \<open>constructor\<close>) the code finds the
    inherited object when the store has no entry of that name, and acts on it; the
    operations of the model do not follow the code there. A hypothesis of the form
    \<open>map_of (args s) k \<noteq> None \<or> \<not> inheritedName k\<close> marks a statement that
    depends on the lookup.
  \<^item> The direction of a vote names one of the two counters of a vote record, so it is a
    two-valued datatype; the side of an argument and the type of a post are compared
    with string literals only, so they are strings.
  \<^item> A \<open>TypeError\<close> is a value: an operation that can raise returns a sum, and the
    store it returns is the one the exception leaves behind.
\<close>

subsection \<open>Strings\<close>

type_synonym jsstring = "16 word list"

definition js :: "string \<Rightarrow> jsstring" where
  "js s = map (\<lambda>c. of_nat (of_char c)) s"

text \<open>The decimal digits of a number that is not negative.\<close>

function digitsOf :: "int \<Rightarrow> jsstring" where
  "digitsOf n =
     (if n < 10 then [of_int (48 + n)] else digitsOf (n div 10) @ [of_int (48 + n mod 10)])"
  by pat_completeness auto
termination
  by (relation "measure nat") auto

declare digitsOf.simps [simp del]

text \<open>Number-to-string conversion of an integer (below \<open>10^21\<close> in absolute value).\<close>

definition numToString :: "int \<Rightarrow> jsstring" where
  "numToString n = (if n < 0 then 45 # digitsOf (- n) else digitsOf n)"

text \<open>
  A double holds every integer up to \<open>2^53\<close> in magnitude and, beyond that, the
  multiples of a power of two: \<open>ulp 1 x\<close> is the distance between the doubles around
  \<open>x\<close>. The sum of two doubles is the double nearest to the exact sum, the one with the
  even multiple when two are equally near (sums beyond the largest double are not
  modelled).
\<close>

function ulp :: "int \<Rightarrow> int \<Rightarrow> int" where
  "ulp q x = (if q \<le> 0 \<or> \<bar>x\<bar> < 9007199254740992 * q then q else ulp (2 * q) x)"
  by pat_completeness auto
termination
  by (relation "measure (\<lambda>(q, x). nat (\<bar>x\<bar> + 1 - 9007199254740992 * q))") auto

declare ulp.simps [simp del]

definition roundDouble :: "int \<Rightarrow> int" where
  "roundDouble x =
     (let q = ulp 1 x; lo = (x div q) * q; r = x - lo
      in if 2 * r < q then lo
         else if q < 2 * r then lo + q
         else if even (x div q) then lo else lo + q)"

definition jsAdd :: "int \<Rightarrow> int \<Rightarrow> int" where
  "jsAdd a b = roundDouble (a + b)"

text \<open>\<open>str.replace(/c/g, rep)\<close> for a single code unit \<open>c\<close>.\<close>

definition replaceAll :: "16 word \<Rightarrow> jsstring \<Rightarrow> jsstring \<Rightarrow> jsstring" where
  "replaceAll c rep str = concat (map (\<lambda>x. if x = c then rep else [x]) str)"

definition escHtml :: "jsstring \<Rightarrow> jsstring" where
  "escHtml str =
     replaceAll 34 (js ''&quot;'')
       (replaceAll 62 (js ''&gt;'')
         (replaceAll 60 (js ''&lt;'')
           (replaceAll 38 (js ''&amp;'') str)))"

text \<open>The white space and line terminators that \<open>String.prototype.trim\<close> removes.\<close>

definition isWhiteSpace :: "16 word \<Rightarrow> bool" where
  "isWhiteSpace c \<longleftrightarrow>
     c \<in> {9, 10, 11, 12, 13, 32, 160, 5760, 8232, 8233, 8239, 8287, 12288, 65279}
     \<or> (8192 \<le> c \<and> c \<le> 8202)"

definition trim :: "jsstring \<Rightarrow> jsstring" where
  "trim str = rev (dropWhile isWhiteSpace (rev (dropWhile isWhiteSpace str)))"

subsection \<open>Data\<close>

datatype jsval = JNum int | JStr jsstring

fun truthy :: "jsval \<Rightarrow> bool" where
  "truthy (JNum n) = (n \<noteq> 0)"
| "truthy (JStr str) = (str \<noteq> [])"

record post =
  id_post :: jsstring
  type_post :: jsstring
  title :: jsstring
  body_post :: jsstring
  tags :: "jsstring list"
  position :: "jsstring option"
  confidence :: "jsval option"
  whatWouldChangeMyMind :: "jsstring option"
  author_post :: jsstring
  createdAt_post :: int
  argCount :: int
  forCount :: int
  againstCount :: int
  mindChanges :: int

record argument =
  id_arg :: jsstring
  postId :: jsstring
  side :: jsstring
  body_arg :: jsstring
  author_arg :: jsstring
  createdAt_arg :: int
  steelmanned :: bool
  steelmanCount :: int

datatype dir = Up | Down

record voteRec =
  up :: int
  down :: int
  userVote :: "dir option"

record store =
  posts :: "post list"
  args :: "(jsstring \<times> argument list) list"
  allTags :: "jsstring list"
  votes :: "jsstring \<rightharpoonup> voteRec"
  currentPost :: "jsstring option"

text \<open>The values that one object creation reads from its environment.\<close>

record gen =
  uid :: jsstring
  dateNow :: int

text \<open>The parameter objects of \<open>createPost\<close> and \<open>createArgument\<close>; \<open>None\<close> is a
  property that the caller left out.\<close>

record postSpec =
  type_spec :: jsstring
  title_spec :: jsstring
  body_spec :: jsstring
  tags_spec :: "jsstring list option"
  position_spec :: "jsstring option"
  confidence_spec :: "jsval option"
  openingArgument_spec :: "jsstring option"
  whatWouldChangeMyMind_spec :: "jsstring option"

record argSpec =
  side_arg_spec :: jsstring
  body_arg_spec :: jsstring
  author_arg_spec :: "jsstring option"
  whatWouldChangeMyMind_arg_spec :: "jsstring option"

datatype error = TypeError

definition defaultTags :: "jsstring list" where
  "defaultTags = map js
     [''democracy'', ''free speech'', ''ethics'', ''economics'', ''philosophy'',
      ''technology'', ''AI'', ''climate'', ''justice'', ''history'', ''law'', ''policy'',
      ''science'', ''religion'', ''capitalism'', ''equality'', ''rights'', ''education'']"

text \<open>The module variables after loading from an empty localStorage.\<close>

definition emptyStore :: store where
  "emptyStore = \<lparr>posts = [], args = [], allTags = defaultTags, votes = Map.empty,
     currentPost = None\<rparr>"

text \<open>\<open>x || null\<close> on an optional string: the empty string is falsy.\<close>

definition orNull :: "jsstring option \<Rightarrow> jsstring option" where
  "orNull x = (case x of None \<Rightarrow> None | Some str \<Rightarrow> if str = [] then None else Some str)"

definition orNullVal :: "jsval option \<Rightarrow> jsval option" where
  "orNullVal x = (case x of None \<Rightarrow> None | Some v \<Rightarrow> if truthy v then Some v else None)"

subsection \<open>Objects as ordered dictionaries\<close>

text \<open>
  An object enumerates its array-index keys first, in ascending order, and then its other
  string keys in the order of their creation. An array index is the canonical decimal
  form of a number below \<open>2^32 - 1\<close>.
\<close>

text \<open>
  The property names of \<open>Object.prototype\<close>: \<open>obj[k]\<close> on an object that has no
  entry \<open>k\<close> of its own finds a function there, or \<open>Object.prototype\<close> itself at
  \<open>__proto__\<close>. A vote on \<open>__proto__\<close> writes \<open>userVote\<close> there too.
\<close>

definition prototypeNames :: "jsstring list" where
  "prototypeNames = map js
     [''constructor'', ''__defineGetter__'', ''__defineSetter__'', ''hasOwnProperty'',
      ''__lookupGetter__'', ''__lookupSetter__'', ''isPrototypeOf'',
      ''propertyIsEnumerable'', ''toString'', ''valueOf'', ''__proto__'',
      ''toLocaleString'']"

definition inheritedName :: "jsstring \<Rightarrow> bool" where
  "inheritedName k \<longleftrightarrow> k \<in> set prototypeNames \<or> k = js ''userVote''"

fun parseDigits :: "jsstring \<Rightarrow> int \<Rightarrow> int option" where
  "parseDigits [] acc = Some acc"
| "parseDigits (c # cs) acc =
     (if 48 \<le> c \<and> c \<le> 57 then parseDigits cs (10 * acc + (uint c - 48)) else None)"

definition arrayIndex :: "jsstring \<Rightarrow> int option" where
  "arrayIndex k =
     (case k of
        [] \<Rightarrow> None
      | c # cs \<Rightarrow>
          if c = 48 \<and> cs \<noteq> [] then None
          else (case parseDigits k 0 of
                  None \<Rightarrow> None
                | Some n \<Rightarrow> if n < 4294967295 then Some n else None))"

definition keyBefore :: "int \<Rightarrow> jsstring \<times> 'v \<Rightarrow> bool" where
  "keyBefore n e = (case arrayIndex (fst e) of None \<Rightarrow> False | Some m \<Rightarrow> m < n)"

fun replaceKey :: "jsstring \<Rightarrow> 'v \<Rightarrow> (jsstring \<times> 'v) list \<Rightarrow> (jsstring \<times> 'v) list" where
  "replaceKey k v [] = []"
| "replaceKey k v (e # es) = (if fst e = k then (k, v) # es else e # replaceKey k v es)"

text \<open>\<open>obj[k] = v\<close>: an existing key keeps its place, a new key is created.\<close>

definition objSet :: "jsstring \<Rightarrow> 'v \<Rightarrow> (jsstring \<times> 'v) list \<Rightarrow> (jsstring \<times> 'v) list" where
  "objSet k v obj =
     (if map_of obj k \<noteq> None then replaceKey k v obj
      else (case arrayIndex k of
              None \<Rightarrow> obj @ [(k, v)]
            | Some n \<Rightarrow> takeWhile (keyBefore n) obj @ (k, v) # dropWhile (keyBefore n) obj))"

text \<open>Mutating the first element of an array that a \<open>find\<close> returned.\<close>

fun updateFirst :: "('a \<Rightarrow> bool) \<Rightarrow> ('a \<Rightarrow> 'a) \<Rightarrow> 'a list \<Rightarrow> 'a list" where
  "updateFirst P f [] = []"
| "updateFirst P f (x # xs) = (if P x then f x # xs else x # updateFirst P f xs)"

subsection \<open>Posts and arguments\<close>

definition getPost :: "store \<Rightarrow> jsstring \<Rightarrow> post option" where
  "getPost s i = find (\<lambda>p. id_post p = i) (posts s)"

definition getAllPosts :: "store \<Rightarrow> post list" where
  "getAllPosts s = posts s"

definition getPostsByType :: "store \<Rightarrow> jsstring \<Rightarrow> post list" where
  "getPostsByType s ty = filter (\<lambda>p. type_post p = ty) (posts s)"

definition getArguments :: "store \<Rightarrow> jsstring \<Rightarrow> argument list" where
  "getArguments s pid = (case map_of (args s) pid of None \<Rightarrow> [] | Some l \<Rightarrow> l)"

definition getAllTags :: "store \<Rightarrow> jsstring list" where
  "getAllTags s = allTags s"

definition initVotes :: voteRec where
  "initVotes = \<lparr>up = 0, down = 0, userVote = None\<rparr>"

definition countArgument :: "jsstring \<Rightarrow> post \<Rightarrow> post" where
  "countArgument sd p =
     (let p1 = p\<lparr>argCount := argCount p + 1\<rparr>;
          p2 = (if sd = js ''for'' then p1\<lparr>forCount := forCount p1 + 1\<rparr> else p1)
      in if sd = js ''against'' then p2\<lparr>againstCount := againstCount p2 + 1\<rparr> else p2)"

text \<open>
  \<open>createArgument\<close> does not look at \<open>side\<close> before it stores it. Lines 116 and
  117 make the list of the post if there is none and put the argument first; the counters
  are those of the post that \<open>getPost\<close> finds, if it finds one; \<open>whatWouldChangeMyMind\<close>
  is taken from the parameter object and not used.
\<close>

definition createArgument :: "gen \<Rightarrow> jsstring \<Rightarrow> argSpec \<Rightarrow> store \<Rightarrow> argument \<times> store" where
  "createArgument g pid sp s =
     (let arg = \<lparr>id_arg = uid g, postId = pid, side = side_arg_spec sp,
                 body_arg = body_arg_spec sp,
                 author_arg = (case orNull (author_arg_spec sp) of
                                 None \<Rightarrow> js ''You'' | Some a \<Rightarrow> a),
                 createdAt_arg = dateNow g, steelmanned = False, steelmanCount = 0\<rparr>;
          s1 = s\<lparr>args := objSet pid (arg # getArguments s pid) (args s)\<rparr>;
          s2 = (case getPost s1 pid of
                  None \<Rightarrow> s1
                | Some p \<Rightarrow>
                    s1\<lparr>posts := updateFirst (\<lambda>p. id_post p = pid)
                                   (countArgument (side_arg_spec sp)) (posts s1)\<rparr>)
      in (arg, s2\<lparr>votes := (votes s2)(uid g \<mapsto> initVotes)\<rparr>))"

text \<open>\<open>tags.forEach(t => { if (!allTags.includes(t)) allTags.push(t); })\<close>\<close>

fun registerTags :: "jsstring list \<Rightarrow> jsstring list \<Rightarrow> jsstring list" where
  "registerTags [] known = known"
| "registerTags (t # ts) known =
     registerTags ts (if t \<in> set known then known else known @ [t])"

text \<open>\<open>position === 'for' || position === 'against' ? position : 'for'\<close>\<close>

definition openingSide :: "jsstring option \<Rightarrow> jsstring" where
  "openingSide pos =
     (case pos of
        None \<Rightarrow> js ''for''
      | Some p \<Rightarrow> if p = js ''for'' \<or> p = js ''against'' then p else js ''for'')"

text \<open>
  \<open>createPost\<close> takes the values of its two object creations: \<open>g\<close> for the post and
  \<open>ga\<close> for the opening argument. Line 74 calls \<open>forEach\<close> on the parameter \<open>tags\<close>
  itself, not on the property \<open>tags || []\<close> of the post, and raises a \<open>TypeError\<close>
  when the caller left \<open>tags\<close> out; the post is in the collection by then. The value
  returned is the post object, which \<open>createArgument\<close> has counted the opening argument on.
\<close>

definition createPost :: "gen \<Rightarrow> gen \<Rightarrow> postSpec \<Rightarrow> store \<Rightarrow> (error + post) \<times> store" where
  "createPost g ga sp s =
     (let p = \<lparr>id_post = uid g, type_post = type_spec sp, title = title_spec sp,
               body_post = body_spec sp,
               tags = (case tags_spec sp of None \<Rightarrow> [] | Some ts \<Rightarrow> ts),
               position = orNull (position_spec sp),
               confidence = orNullVal (confidence_spec sp),
               whatWouldChangeMyMind = orNull (whatWouldChangeMyMind_spec sp),
               author_post = js ''You'', createdAt_post = dateNow g,
               argCount = 0, forCount = 0, againstCount = 0, mindChanges = 0\<rparr>;
          s1 = s\<lparr>posts := p # posts s\<rparr>
      in case tags_spec sp of
           None \<Rightarrow> (Inl TypeError, s1)
         | Some ts \<Rightarrow>
             (let s2 = s1\<lparr>allTags := registerTags ts (allTags s1)\<rparr>;
                  s3 = (case openingArgument_spec sp of
                          None \<Rightarrow> s2
                        | Some oa \<Rightarrow>
                            if oa \<noteq> [] \<and> trim oa \<noteq> [] then
                              snd (createArgument ga (uid g)
                                \<lparr>side_arg_spec = openingSide (position_spec sp),
                                 body_arg_spec = oa,
                                 author_arg_spec = Some (js ''You''),
                                 whatWouldChangeMyMind_arg_spec = whatWouldChangeMyMind_spec sp\<rparr>
                                s2)
                            else s2)
              in (Inr (case getPost s3 (uid g) of None \<Rightarrow> p | Some p' \<Rightarrow> p'), s3)))"

subsection \<open>Votes\<close>

text \<open>\<open>v[d]++\<close> (\<open>k = 1\<close>) and \<open>v[d]--\<close> (\<open>k = - 1\<close>) on a vote record.\<close>

definition addTo :: "dir \<Rightarrow> int \<Rightarrow> voteRec \<Rightarrow> voteRec" where
  "addTo d k v =
     (case d of Up \<Rightarrow> v\<lparr>up := jsAdd (up v) k\<rparr> | Down \<Rightarrow> v\<lparr>down := jsAdd (down v) k\<rparr>)"

definition getVotes :: "store \<Rightarrow> jsstring \<Rightarrow> voteRec" where
  "getVotes s argId = (case votes s argId of None \<Rightarrow> initVotes | Some v \<Rightarrow> v)"

definition vote :: "jsstring \<Rightarrow> dir \<Rightarrow> store \<Rightarrow> voteRec \<times> store" where
  "vote argId d s =
     (let vs = (if votes s argId = None then (votes s)(argId \<mapsto> initVotes) else votes s);
          v = (case vs argId of None \<Rightarrow> initVotes | Some v \<Rightarrow> v);
          v' = (if userVote v = Some d then (addTo d (- 1) v)\<lparr>userVote := None\<rparr>
                else (let v1 = (case userVote v of None \<Rightarrow> v | Some u \<Rightarrow> addTo u (- 1) v)
                      in (addTo d 1 v1)\<lparr>userVote := Some d\<rparr>))
      in (v', s\<lparr>votes := vs(argId \<mapsto> v')\<rparr>))"

subsection \<open>Steelman, mind change, current post\<close>

definition flipSteelman :: "argument \<Rightarrow> argument" where
  "flipSteelman a =
     (let a1 = a\<lparr>steelmanned := \<not> steelmanned a\<rparr>
      in a1\<lparr>steelmanCount := jsAdd (steelmanCount a1) (if steelmanned a1 then 1 else - 1)\<rparr>)"

text \<open>The loop over the keys of \<open>args\<close>: the first list that holds a match is changed.\<close>

fun toggleLoop ::
  "jsstring \<Rightarrow> (jsstring \<times> argument list) list \<Rightarrow> bool \<times> (jsstring \<times> argument list) list" where
  "toggleLoop argId [] = (False, [])"
| "toggleLoop argId ((pid, l) # rest) =
     (case find (\<lambda>a. id_arg a = argId) l of
        Some a \<Rightarrow>
          (steelmanned (flipSteelman a),
           (pid, updateFirst (\<lambda>a. id_arg a = argId) flipSteelman l) # rest)
      | None \<Rightarrow>
          (let (r, rest') = toggleLoop argId rest in (r, (pid, l) # rest')))"

definition toggleSteelman :: "jsstring \<Rightarrow> store \<Rightarrow> bool \<times> store" where
  "toggleSteelman argId s =
     (let (r, as) = toggleLoop argId (args s) in (r, s\<lparr>args := as\<rparr>))"

definition declareMindChange :: "jsstring \<Rightarrow> jsstring \<Rightarrow> store \<Rightarrow> store" where
  "declareMindChange pid text s =
     (case getPost s pid of
        None \<Rightarrow> s
      | Some p \<Rightarrow>
          s\<lparr>posts := updateFirst (\<lambda>p. id_post p = pid)
                        (\<lambda>p. p\<lparr>mindChanges := mindChanges p + 1\<rparr>) (posts s)\<rparr>)"

text \<open>\<open>save\<close> swallows a failed write: \<open>written\<close> says whether localStorage took it.\<close>

definition setCurrentPost :: "bool \<Rightarrow> jsstring \<Rightarrow> store \<Rightarrow> store" where
  "setCurrentPost written pid s = (if written then s\<lparr>currentPost := Some pid\<rparr> else s)"

definition getCurrentPost :: "store \<Rightarrow> post option" where
  "getCurrentPost s =
     (case orNull (currentPost s) of None \<Rightarrow> None | Some i \<Rightarrow> getPost s i)"

subsection \<open>Render helpers\<close>

text \<open>
  \<open>Date.now()\<close> is the argument \<open>now\<close>, and \<open>createdAt\<close> the time that
  \<open>new Date(iso)\<close> parses back from the ISO string, both within the range of a date
  (\<open>8.64 * 10^15\<close> milliseconds either side of the epoch). Their difference is a
  double; \<open>div\<close> on \<open>int\<close> rounds down, as \<open>Math.floor\<close> does, and the
  quotients of such a difference are exact.
\<close>

definition timeAgo :: "int \<Rightarrow> int \<Rightarrow> jsstring" where
  "timeAgo now isoTime =
     (let diff = roundDouble (now - isoTime) div 1000
      in if diff < 60 then js ''Just now''
         else if diff < 3600 then numToString (diff div 60) @ js '' min ago''
         else if diff < 86400 then numToString (diff div 3600) @ js '' hr ago''
         else numToString (diff div 86400) @ js '' days ago'')"

record typeColor =
  border :: jsstring
  badge :: jsstring
  color :: jsstring

definition discussionColors :: typeColor where
  "discussionColors =
     \<lparr>border = js ''var(--blue)'', badge = js ''rgba(113,169,247,0.1)'',
      color = js ''var(--blue)''\<rparr>"

text \<open>
  \<open>typeColors[post.type]\<close>: one of the three entries, or the object inherited under a
  name of \<open>Object.prototype\<close>, whose \<open>border\<close>, \<open>badge\<close> and \<open>color\<close> are
  \<open>undefined\<close> and are written so.
\<close>

definition typeColors :: "jsstring \<Rightarrow> typeColor option" where
  "typeColors ty =
     (if ty = js ''debate'' then
        Some \<lparr>border = js ''var(--red)'', badge = js ''rgba(164,22,35,0.08)'',
              color = js ''var(--red)''\<rparr>
      else if ty = js ''discussion'' then Some discussionColors
      else if ty = js ''question'' then
        Some \<lparr>border = js ''var(--green)'', badge = js ''rgba(53,143,101,0.08)'',
              color = js ''var(--green)''\<rparr>
      else if ty \<in> set prototypeNames then
        Some \<lparr>border = js ''undefined'', badge = js ''undefined'', color = js ''undefined''\<rparr>
      else None)"

text \<open>The markup of one tag, lines 217 to 219: the tag goes in as it is.\<close>

definition tagSpan :: "jsstring \<Rightarrow> jsstring" where
  \<open>tagSpan tag =
     js ''<span style="font-family:'Cinzel',serif;font-size:10px;letter-spacing:0.08em;padding:3px 8px;border-radius:2px;background:rgba(46,80,119,0.08);color:var(--navy);">'' @ tag @ js ''</span>''\<close>

definition renderPostCard :: "int \<Rightarrow> post \<Rightarrow> jsstring" where
  \<open>renderPostCard now post =
     (let t = (case typeColors (type_post post) of None \<Rightarrow> discussionColors | Some c \<Rightarrow> c);
          tagHtml = concat (map tagSpan (take 3 (tags post)))
      in
       js ''\<newline>''
       @ js ''      <a class="post-card" href="debate.html" onclick="AgoraStore.setCurrentPost('' @ [39] @ id_post post @ [39] @ js '')" style="\<newline>''
       @ js ''        display:block; text-decoration:none; color:inherit;\<newline>''
       @ js ''        background:white;\<newline>''
       @ js ''        border:1px solid rgba(46,80,119,0.12);\<newline>''
       @ js ''        border-left:4px solid '' @ border t @ js '';\<newline>''
       @ js ''        border-radius:3px;\<newline>''
       @ js ''        padding:28px;\<newline>''
       @ js ''        transition:all 0.25s;\<newline>''
       @ js ''        cursor:pointer;\<newline>''
       @ js ''      " onmouseover="this.style.transform='translateY(-3px)';this.style.boxShadow='0 8px 30px rgba(46,80,119,0.1)'"\<newline>''
       @ js ''         onmouseout="this.style.transform='' @ [39] @ [39] @ js '';this.style.boxShadow='' @ [39] @ [39] @ js ''">\<newline>''
       @ js ''        <div style="display:flex;align-items:center;gap:8px;margin-bottom:10px;flex-wrap:wrap;">\<newline>''
       @ js ''          <span style="font-family:'Cinzel',serif;font-size:9px;letter-spacing:0.2em;text-transform:uppercase;padding:3px 10px;border-radius:20px;background:'' @ badge t @ js '';color:'' @ color t @ js '';">'' @ type_post post @ js ''</span>\<newline>''
       @ js ''          '' @ tagHtml @ js ''\<newline>''
       @ js ''        </div>\<newline>''
       @ js ''        <div style="font-family:'Cinzel',serif;font-size:17px;font-weight:600;color:var(--navy);line-height:1.3;margin-bottom:10px;">'' @ escHtml (title post) @ js ''</div>\<newline>''
       @ js ''        <div style="font-size:14px;color:#777;line-height:1.6;margin-bottom:18px;">'' @ escHtml (take 140 (body_post post)) @ (if length (body_post post) > 140 then [8230] else []) @ js ''</div>\<newline>''
       @ js ''        <div style="display:flex;align-items:center;justify-content:space-between;border-top:1px solid rgba(0,0,0,0.06);padding-top:14px;font-size:13px;flex-wrap:wrap;gap:8px;">\<newline>''
       @ js ''          <div style="display:flex;gap:8px;">\<newline>''
       @ js ''            '' @ (if type_post post = js ''debate''
           then (js ''\<newline>''
           @ js ''              <span style="font-family:'Cinzel',serif;font-size:10px;padding:3px 10px;border-radius:20px;background:rgba(53,143,101,0.1);color:var(--green);">'' @ numToString (forCount post) @ js '' For</span>\<newline>''
           @ js ''              <span style="font-family:'Cinzel',serif;font-size:10px;padding:3px 10px;border-radius:20px;background:rgba(164,22,35,0.08);color:var(--red);">'' @ numToString (againstCount post) @ js '' Against</span>\<newline>''
           @ js ''            '')
           else (js ''<span style="color:#aaa;">'' @ numToString (argCount post) @ js '' '' @ (if argCount post = 1 then js ''reply'' else js ''replies'') @ js ''</span>'')) @ js ''\<newline>''
       @ js ''          </div>\<newline>''
       @ js ''          <span style="color:#bbb;font-family:'Cinzel',serif;font-size:11px;letter-spacing:0.05em;">'' @ timeAgo now (createdAt_post post) @ js ''</span>\<newline>''
       @ js ''        </div>\<newline>''
       @ js ''      </a>'')\<close>

text \<open>\<open>str.split(' ')\<close>: the pieces between the spaces, empty ones included.\<close>

fun splitOn :: "16 word \<Rightarrow> jsstring \<Rightarrow> jsstring list" where
  "splitOn c [] = [[]]"
| "splitOn c (x # xs) =
     (if x = c then [] # splitOn c xs
      else (case splitOn c xs of [] \<Rightarrow> [[x]] | w # ws \<Rightarrow> (x # w) # ws))"

text \<open>
  \<open>arg.author.split(' ').map(w => w[0]).join('').slice(0,2)\<close>: \<open>w[0]\<close> of an
  empty piece is \<open>undefined\<close>, which \<open>join\<close> writes as the empty string.
\<close>

definition initialsOf :: "jsstring \<Rightarrow> jsstring" where
  "initialsOf author = take 2 (concat (map (take 1) (splitOn 32 author)))"

text \<open>
  \<open>String.prototype.toUpperCase\<close> is not code of the module: \<open>renderArgCard\<close> takes
  it as its first argument. The votes come from the store, and \<open>postId\<close> is not used.
\<close>

definition renderArgCard ::
  "(jsstring \<Rightarrow> jsstring) \<Rightarrow> int \<Rightarrow> store \<Rightarrow> argument \<Rightarrow> jsstring \<Rightarrow> jsstring" where
  \<open>renderArgCard toUpperCase now s arg pid =
     (let v = getVotes s (id_arg arg);
          isFor = (side arg = js ''for'');
          borderColor = (if isFor then js ''var(--green)'' else js ''var(--red)'');
          borderBg = (if isFor then js ''rgba(53,143,101,0.15)'' else js ''rgba(164,22,35,0.12)'');
          badgeClass = (if isFor then js ''badge-for'' else js ''badge-against'');
          sideLabel = (if isFor then js ''For'' else js ''Against'');
          initials = toUpperCase (initialsOf (author_arg arg));
          avatarBg = (if isFor then js ''var(--green)'' else js ''var(--red)'');
          steelHtml =
            (if steelmanned arg
             then js ''<span class="steelman-badge">'' @ [9733] @ js '' Steelmanned '' @ [215] @ numToString (steelmanCount arg) @ js ''</span>''
             else [])
      in
       js ''\<newline>''
       @ js ''      <div class="arg-card '' @ side arg @ js ''" id="arg-'' @ id_arg arg @ js ''" style="border-left-color:'' @ borderColor @ js '';border-color:'' @ borderBg @ js '';">\<newline>''
       @ js ''        <div class="arg-header">\<newline>''
       @ js ''          <div class="arg-author">\<newline>''
       @ js ''            <div class="avatar" style="background:'' @ avatarBg @ js '';">'' @ initials @ js ''</div>\<newline>''
       @ js ''            <div class="arg-meta">\<newline>''
       @ js ''              <span class="arg-name">'' @ escHtml (author_arg arg) @ js ''</span>\<newline>''
       @ js ''              <span class="arg-time">'' @ timeAgo now (createdAt_arg arg) @ js ''</span>\<newline>''
       @ js ''            </div>\<newline>''
       @ js ''          </div>\<newline>''
       @ js ''          <span class="arg-side-badge '' @ badgeClass @ js ''">'' @ sideLabel @ js ''</span>\<newline>''
       @ js ''        </div>\<newline>''
       @ js ''        <p class="arg-body">'' @ replaceAll 10 (js ''<br>'') (escHtml (body_arg arg)) @ js ''</p>\<newline>''
       @ js ''        <div class="arg-footer">\<newline>''
       @ js ''          <button class="arg-action steelman '' @ (if steelmanned arg then js ''active'' else []) @ js ''"\<newline>''
       @ js ''            onclick="handleSteelman('' @ [39] @ id_arg arg @ [39] @ js '', this)">'' @ [11088] @ js '' '' @ (if steelmanned arg then js ''Steelmanned'' else js ''Steelman'') @ js ''</button>\<newline>''
       @ js ''          '' @ steelHtml @ js ''\<newline>''
       @ js ''          <div class="arg-votes">\<newline>''
       @ js ''            <button class="vote-btn up '' @ (if userVote v = Some Up then js ''active-up'' else []) @ js ''"\<newline>''
       @ js ''              onclick="handleVote('' @ [39] @ id_arg arg @ [39] @ js '', 'up', this)">'' @ [9650] @ js ''</button>\<newline>''
       @ js ''            <span class="vote-count" id="votes-'' @ id_arg arg @ js ''">'' @ numToString (jsAdd (up v) (- down v)) @ js ''</span>\<newline>''
       @ js ''            <button class="vote-btn down '' @ (if userVote v = Some Down then js ''active-down'' else []) @ js ''"\<newline>''
       @ js ''              onclick="handleVote('' @ [39] @ id_arg arg @ [39] @ js '', 'down', this)">'' @ [9660] @ js ''</button>\<newline>''
       @ js ''          </div>\<newline>''
       @ js ''        </div>\<newline>''
       @ js ''      </div>'')\<close>

subsection \<open>Sequences of operations\<close>

datatype op =
    CreatePost gen gen postSpec
  | CreateArgument gen jsstring argSpec
  | Vote jsstring dir
  | ToggleSteelman jsstring
  | DeclareMindChange jsstring jsstring
  | SetCurrentPost bool jsstring

fun step :: "op \<Rightarrow> store \<Rightarrow> store" where
  "step (CreatePost g ga sp) s = snd (createPost g ga sp s)"
| "step (CreateArgument g pid sp) s = snd (createArgument g pid sp s)"
| "step (Vote argId d) s = snd (vote argId d s)"
| "step (ToggleSteelman argId) s = snd (toggleSteelman argId s)"
| "step (DeclareMindChange pid text) s = declareMindChange pid text s"
| "step (SetCurrentPost written pid) s = setCurrentPost written pid s"

fun run :: "op list \<Rightarrow> store \<Rightarrow> store" where
  "run [] s = s"
| "run (x # xs) s = run xs (step x s)"

text \<open>
  \<open>uid()\<close> is meant to return an identifier that nothing uses yet. For a post this
  is: no post has it and no argument list is filed under it.
\<close>

definition freshPostId :: "store \<Rightarrow> jsstring \<Rightarrow> bool" where
  "freshPostId s i \<longleftrightarrow> getPost s i = None \<and> map_of (args s) i = None"

fun freshRun :: "op list \<Rightarrow> store \<Rightarrow> bool" where
  "freshRun [] s = True"
| "freshRun (x # xs) s =
     ((case x of CreatePost g ga sp \<Rightarrow> freshPostId s (uid g) | _ \<Rightarrow> True)
      \<and> freshRun xs (step x s))"

text \<open>
  The sides of the arguments that a sequence of operations files under a post identifier,
  in the order of their creation: one for each \<open>createArgument\<close> on it, and one for the
  opening argument of the \<open>createPost\<close> that made the post.
\<close>

definition addsOpening :: "postSpec \<Rightarrow> bool" where
  "addsOpening sp \<longleftrightarrow>
     tags_spec sp \<noteq> None
     \<and> (case openingArgument_spec sp of None \<Rightarrow> False | Some oa \<Rightarrow> oa \<noteq> [] \<and> trim oa \<noteq> [])"

fun createdBy :: "jsstring \<Rightarrow> op \<Rightarrow> jsstring list" where
  "createdBy pid (CreateArgument g pid' sp) = (if pid' = pid then [side_arg_spec sp] else [])"
| "createdBy pid (CreatePost g ga sp) =
     (if uid g = pid \<and> addsOpening sp then [openingSide (position_spec sp)] else [])"
| "createdBy pid x = []"

definition createdSides :: "jsstring \<Rightarrow> op list \<Rightarrow> jsstring list" where
  "createdSides pid xs = concat (map (createdBy pid) xs)"

text \<open>The number of supplied tags that the vocabulary does not hold, each entry counted.\<close>

definition suppliedAbsent :: "jsstring list \<Rightarrow> jsstring list \<Rightarrow> nat" where
  "suppliedAbsent known ts = length (filter (\<lambda>t. t \<notin> set known) ts)"

text \<open>What the data model says of the counters of a post.\<close>

definition countSide :: "jsstring \<Rightarrow> argument list \<Rightarrow> int" where
  "countSide sd l = int (length (filter (\<lambda>a. side a = sd) l))"

definition postCounted :: "store \<Rightarrow> post \<Rightarrow> bool" where
  "postCounted s p \<longleftrightarrow>
     forCount p = countSide (js ''for'') (getArguments s (id_post p))
     \<and> againstCount p = countSide (js ''against'') (getArguments s (id_post p))
     \<and> argCount p = int (length (getArguments s (id_post p)))"

definition countsInv :: "store \<Rightarrow> bool" where
  "countsInv s \<longleftrightarrow>
     distinct (map id_post (posts s)) \<and> (\<forall>p \<in> set (posts s). postCounted s p)"

text \<open>What the data model says of a vote record: at most one vote, and it is the user's.\<close>

definition voteInv :: "voteRec \<Rightarrow> bool" where
  "voteInv v \<longleftrightarrow>
     (up v = 0 \<or> up v = 1) \<and> (down v = 0 \<or> down v = 1) \<and> up v + down v \<le> 1
     \<and> (up v = 1 \<longleftrightarrow> userVote v = Some Up) \<and> (down v = 1 \<longleftrightarrow> userVote v = Some Down)"

subsection \<open>Example values\<close>

definition examplePostSpec :: postSpec where
  "examplePostSpec =
     \<lparr>type_spec = js ''debate'', title_spec = js ''T'', body_spec = js ''B'',
      tags_spec = Some [js ''ethics'', js ''zen''], position_spec = Some (js ''undecided''),
      confidence_spec = None, openingArgument_spec = Some (js ''Because.''),
      whatWouldChangeMyMind_spec = None\<rparr>"

definition exampleStore :: store where
  "exampleStore =
     snd (createPost \<lparr>uid = js ''p1'', dateNow = 1000\<rparr> \<lparr>uid = js ''a1'', dateNow = 1001\<rparr>
            examplePostSpec emptyStore)"

definition exampleArg :: argument where
  "exampleArg =
     \<lparr>id_arg = js ''a1'', postId = js ''p1'', side = js ''for'', body_arg = js ''Because.'',
      author_arg = js ''You'', createdAt_arg = 1001, steelmanned = False, steelmanCount = 0\<rparr>"

definition examplePost :: post where
  "examplePost =
     \<lparr>id_post = js ''p1'', type_post = js ''debate'', title = js ''T'', body_post = js ''B'',
      tags = [js ''ethics'', js ''zen''], position = Some (js ''undecided''),
      confidence = None, whatWouldChangeMyMind = None, author_post = js ''You'',
      createdAt_post = 1000, argCount = 1, forCount = 1, againstCount = 0,
      mindChanges = 0\<rparr>"

text \<open>A call of \<open>createPost\<close> that leaves \<open>tags\<close> out.\<close>

definition noTagsSpec :: postSpec where
  "noTagsSpec =
     \<lparr>type_spec = js ''debate'', title_spec = js ''T'', body_spec = js ''B'',
      tags_spec = None, position_spec = None, confidence_spec = None,
      openingArgument_spec = None, whatWouldChangeMyMind_spec = None\<rparr>"

text \<open>A call of \<open>createPost\<close> that names a new tag twice.\<close>

definition twiceTagSpec :: postSpec where
  "twiceTagSpec =
     \<lparr>type_spec = js ''question'', title_spec = js ''T'', body_spec = js ''B'',
      tags_spec = Some [js ''zen'', js ''zen''], position_spec = None,
      confidence_spec = None, openingArgument_spec = None,
      whatWouldChangeMyMind_spec = None\<rparr>"

text \<open>A call of \<open>createArgument\<close> with a side that is neither for nor against.\<close>

definition neutralSpec :: argSpec where
  "neutralSpec =
     \<lparr>side_arg_spec = js ''neutral'', body_arg_spec = js ''Hm.'', author_arg_spec = None,
      whatWouldChangeMyMind_arg_spec = None\<rparr>"

definition againstSpec :: argSpec where
  "againstSpec =
     \<lparr>side_arg_spec = js ''against'', body_arg_spec = js ''No.'',
      author_arg_spec = Some (js ''Ada Byron''), whatWouldChangeMyMind_arg_spec = None\<rparr>"

definition exampleOps :: "op list" where
  "exampleOps =
     [CreatePost \<lparr>uid = js ''p1'', dateNow = 1000\<rparr> \<lparr>uid = js ''a1'', dateNow = 1001\<rparr>
        examplePostSpec,
      CreateArgument \<lparr>uid = js ''a2'', dateNow = 2000\<rparr> (js ''p1'') againstSpec,
      Vote (js ''a2'') Up,
      ToggleSteelman (js ''a1'')]"

text \<open>The post of the example store after \<open>exampleOps\<close>.\<close>

definition exampleFinalPost :: post where
  "exampleFinalPost = examplePost\<lparr>argCount := 2, againstCount := 1\<rparr>"

text \<open>A post spec with the position against and an opening argument.\<close>

definition againstPostSpec :: postSpec where
  "againstPostSpec =
     \<lparr>type_spec = js ''debate'', title_spec = js ''T'', body_spec = js ''B'',
      tags_spec = Some [], position_spec = Some (js ''against''),
      confidence_spec = None, openingArgument_spec = Some (js ''Never.''),
      whatWouldChangeMyMind_spec = None\<rparr>"

definition againstOpening :: argument where
  "againstOpening =
     \<lparr>id_arg = js ''a1'', postId = js ''p1'', side = js ''against'', body_arg = js ''Never.'',
      author_arg = js ''You'', createdAt_arg = 1001, steelmanned = False, steelmanCount = 0\<rparr>"





text \<open>A post whose only tag is markup.\<close>

definition markupTag :: jsstring where
  \<open>markupTag = js ''<img src=x onerror="alert(1)">''\<close>

definition markupPost :: post where
  "markupPost = examplePost\<lparr>tags := [markupTag]\<rparr>"

text \<open>An argument whose author's words begin with markup.\<close>

definition markupArg :: argument where
  "markupArg = exampleArg\<lparr>author_arg := js ''<b <i''\<rparr>"

section \<open>Properties\<close>

subsection \<open>Votes\<close>

lemma votes_createArgument:
  "votes (snd (createArgument g pid sp s)) = (votes s)(uid g \<mapsto> initVotes)"
  by (simp add: createArgument_def Let_def split: option.splits)

lemma votes_createPost:
  "votes (snd (createPost g ga sp s)) = votes s
   \<or> votes (snd (createPost g ga sp s)) = (votes s)(uid ga \<mapsto> initVotes)"
  by (simp add: createPost_def Let_def votes_createArgument split: option.splits)

lemma votes_toggleSteelman: "votes (snd (toggleSteelman argId s)) = votes s"
  by (simp add: toggleSteelman_def split: prod.splits)

lemma votes_declareMindChange: "votes (declareMindChange pid text s) = votes s"
  by (simp add: declareMindChange_def split: option.splits)

lemma votes_setCurrentPost: "votes (setCurrentPost w pid s) = votes s"
  by (simp add: setCurrentPost_def)

lemma fst_vote:
  "fst (vote argId d s) =
     (let v = getVotes s argId in
      if userVote v = Some d then (addTo d (- 1) v)\<lparr>userVote := None\<rparr>
      else (addTo d 1 (case userVote v of None \<Rightarrow> v | Some u \<Rightarrow> addTo u (- 1) v))
             \<lparr>userVote := Some d\<rparr>)"
  by (simp add: vote_def getVotes_def Let_def split: option.splits)

lemma votes_vote:
  "votes (snd (vote argId d s)) = (votes s)(argId \<mapsto> fst (vote argId d s))"
  by (auto simp add: vote_def Let_def split: option.splits)

subsection \<open>Sums of doubles\<close>

lemma ulp_small: "\<bar>x\<bar> < 9007199254740992 \<Longrightarrow> ulp 1 x = 1"
  by (subst ulp.simps) simp

lemma roundDouble_exact: "\<bar>x\<bar> \<le> 9007199254740992 \<Longrightarrow> roundDouble x = x"
proof (cases "\<bar>x\<bar> < 9007199254740992")
  case True
  then show ?thesis by (simp add: roundDouble_def ulp_small)
next
  case False
  assume "\<bar>x\<bar> \<le> 9007199254740992"
  with False have x: "x = 9007199254740992 \<or> x = - 9007199254740992" by arith
  have "ulp 1 x = 2"
    using x by (subst ulp.simps, subst ulp.simps) auto
  then show ?thesis using x by (auto simp add: roundDouble_def)
qed

lemma jsAdd_exact: "\<bar>a + b\<bar> \<le> 9007199254740992 \<Longrightarrow> jsAdd a b = a + b"
  by (simp add: jsAdd_def roundDouble_exact)



lemma jsAdd_small:
  "jsAdd 0 1 = 1" "jsAdd 1 (- 1) = 0" "jsAdd 0 (- 1) = - 1" "jsAdd 1 1 = 2"
  using jsAdd_exact [of 0 1] jsAdd_exact [of 1 "- 1"] jsAdd_exact [of 0 "- 1"]
    jsAdd_exact [of 1 1]
  by simp_all


subsection \<open>The invariant of a vote record\<close>

lemma voteInv_init: "voteInv initVotes"
  by (simp add: voteInv_def initVotes_def)

lemma voteInv_vote: "voteInv (getVotes s argId) \<Longrightarrow> voteInv (fst (vote argId d s))"
  by (cases d; cases "userVote (getVotes s argId)")
     (auto simp add: fst_vote voteInv_def addTo_def Let_def jsAdd_small split: dir.splits)

lemma voteInv_step: "voteInv (getVotes s a) \<Longrightarrow> voteInv (getVotes (step x s) a)"
proof (cases x)
  case (CreatePost g ga sp)
  assume "voteInv (getVotes s a)"
  then show ?thesis
    using votes_createPost [of g ga sp s] CreatePost
    by (auto simp add: getVotes_def voteInv_init)
next
  case (CreateArgument g pid sp)
  assume "voteInv (getVotes s a)"
  then show ?thesis
    using CreateArgument by (simp add: getVotes_def votes_createArgument voteInv_init)
next
  case (Vote b d)
  assume inv: "voteInv (getVotes s a)"
  then have "voteInv (fst (vote a d s))" by (rule voteInv_vote)
  moreover have "getVotes (step x s) a = (if a = b then fst (vote b d s) else getVotes s a)"
    using Vote by (simp add: getVotes_def votes_vote)
  ultimately show ?thesis using inv by auto
next
  case (ToggleSteelman b)
  assume "voteInv (getVotes s a)"
  then show ?thesis using ToggleSteelman by (simp add: getVotes_def votes_toggleSteelman)
next
  case (DeclareMindChange pid t)
  assume "voteInv (getVotes s a)"
  then show ?thesis
    using DeclareMindChange by (simp add: getVotes_def votes_declareMindChange)
next
  case (SetCurrentPost w pid)
  assume "voteInv (getVotes s a)"
  then show ?thesis using SetCurrentPost by (simp add: getVotes_def votes_setCurrentPost)
qed

lemma voteInv_run: "voteInv (getVotes s a) \<Longrightarrow> voteInv (getVotes (run xs s) a)"
  by (induction xs arbitrary: s) (simp_all add: voteInv_step)

text \<open>
  Claim C8. A vote record that starts as the initial record (up 0, down 0, no vote) keeps
  the invariant \<open>voteInv\<close> under every sequence of operations of the store, votes on
  any argument included: each counter is 0 or 1, their sum is at most 1, up is 1 exactly
  when \<open>userVote\<close> is up and down is 1 exactly when it is down. That \<open>userVote\<close> is
  none, up or down is the type of the field.
\<close>

theorem vote_record_invariant:
  "getVotes s argId = initVotes \<Longrightarrow> voteInv (getVotes (run xs s) argId)"
  using voteInv_run [of s argId xs] by (simp add: voteInv_init)

theorem vote_record_invariant_witness:
  "getVotes emptyStore (js ''a1'') = initVotes
   \<and> voteInv (getVotes
        (run [Vote (js ''a1'') Up, Vote (js ''a2'') Down, Vote (js ''a1'') Down] emptyStore)
        (js ''a1''))"
  using vote_record_invariant
    [of emptyStore "js ''a1''" "[Vote (js ''a1'') Up, Vote (js ''a2'') Down, Vote (js ''a1'') Down]"]
  by (simp add: getVotes_def emptyStore_def)

subsection \<open>Toggle or switch\<close>




subsection \<open>The example store\<close>

lemma exampleStore_eq:
  "exampleStore =
     \<lparr>posts = [examplePost], args = [(js ''p1'', [exampleArg])],
      allTags = defaultTags @ [js ''zen''], votes = [js ''a1'' \<mapsto> initVotes],
      currentPost = None\<rparr>"
  by (simp add: exampleStore_def examplePostSpec_def examplePost_def exampleArg_def
        createPost_def createArgument_def emptyStore_def defaultTags_def js_def Let_def
        orNull_def orNullVal_def openingSide_def trim_def isWhiteSpace_def getArguments_def
        getPost_def objSet_def arrayIndex_def countArgument_def)

subsection \<open>Steelman\<close>



lemma side_flipSteelman: "side (flipSteelman a) = side a"
  by (simp add: flipSteelman_def Let_def)



lemma snd_toggleLoop_Cons:
  "snd (toggleLoop argId ((pid, l) # rest)) =
     (case find (\<lambda>a. id_arg a = argId) l of
        None \<Rightarrow> (pid, l) # snd (toggleLoop argId rest)
      | Some a \<Rightarrow> (pid, updateFirst (\<lambda>a. id_arg a = argId) flipSteelman l) # rest)"
  by (simp add: case_prod_beta split: option.splits)

lemma snd_toggleSteelman:
  "snd (toggleSteelman argId s) = s\<lparr>args := snd (toggleLoop argId (args s))\<rparr>"
  by (simp add: toggleSteelman_def split: prod.splits)







subsection \<open>A post spec without tags\<close>

lemma createPost_tags_omitted:
  "tags_spec sp = None \<Longrightarrow>
     fst (createPost g ga sp s) = Inl TypeError
     \<and> length (posts (snd (createPost g ga sp s))) = Suc (length (posts s))
     \<and> allTags (snd (createPost g ga sp s)) = allTags s"
  by (simp add: createPost_def Let_def)

text \<open>
  Claim C6. The claim is that no operation raises, a \<open>createPost\<close> whose spec leaves
  \<open>tags\<close> out included. The code raises there: \<open>createPost({type: 'debate', title:
  'T', body: 'B'})\<close> on the empty store ends in a \<open>TypeError\<close>, with the post already
  in the collection.
\<close>

theorem createPost_without_tags_raises:
  "fst (createPost \<lparr>uid = js ''p1'', dateNow = 1000\<rparr> \<lparr>uid = js ''a1'', dateNow = 1001\<rparr>
          noTagsSpec emptyStore) = Inl TypeError
   \<and> length (posts (snd (createPost \<lparr>uid = js ''p1'', dateNow = 1000\<rparr>
          \<lparr>uid = js ''a1'', dateNow = 1001\<rparr> noTagsSpec emptyStore))) = 1"
  by (simp add: createPost_tags_omitted noTagsSpec_def emptyStore_def)

subsection \<open>Dictionaries, and what an operation files under a post\<close>

lemma map_of_replaceKey:
  "map_of obj k \<noteq> None \<Longrightarrow> map_of (replaceKey k v obj) = (map_of obj)(k \<mapsto> v)"
  by (induction obj) (auto simp add: fun_upd_twist)

lemma map_of_insertKey:
  assumes "map_of (xs @ ys) k = None"
  shows "map_of (xs @ (k, v) # ys) = (map_of (xs @ ys))(k \<mapsto> v)"
proof
  fix k'
  have "map_of xs k = None" using assms by (simp add: map_add_None)
  then show "map_of (xs @ (k, v) # ys) k' = ((map_of (xs @ ys))(k \<mapsto> v)) k'"
    by (simp add: map_add_def split: option.splits)
qed

lemma map_of_objSet: "map_of (objSet k v obj) = (map_of obj)(k \<mapsto> v)"
proof (cases "map_of obj k")
  case (Some l)
  then show ?thesis by (simp add: objSet_def map_of_replaceKey)
next
  case None
  show ?thesis
  proof (cases "arrayIndex k")
    case None
    with \<open>map_of obj k = None\<close> show ?thesis
      using map_of_insertKey [of obj "[]" k v] by (simp add: objSet_def)
  next
    case (Some n)
    have "map_of (takeWhile (keyBefore n) obj @ dropWhile (keyBefore n) obj) k = None"
      using \<open>map_of obj k = None\<close> by simp
    then have "map_of (takeWhile (keyBefore n) obj @ (k, v) # dropWhile (keyBefore n) obj)
                 = (map_of (takeWhile (keyBefore n) obj @ dropWhile (keyBefore n) obj))(k \<mapsto> v)"
      by (rule map_of_insertKey)
    then show ?thesis using Some \<open>map_of obj k = None\<close> by (simp add: objSet_def)
  qed
qed

lemma fst_createArgument:
  "fst (createArgument g pid sp s) =
     \<lparr>id_arg = uid g, postId = pid, side = side_arg_spec sp, body_arg = body_arg_spec sp,
      author_arg = (case orNull (author_arg_spec sp) of None \<Rightarrow> js ''You'' | Some a \<Rightarrow> a),
      createdAt_arg = dateNow g, steelmanned = False, steelmanCount = 0\<rparr>"
  by (simp add: createArgument_def Let_def)

lemma args_createArgument:
  "args (snd (createArgument g pid sp s)) =
     objSet pid (fst (createArgument g pid sp s) # getArguments s pid) (args s)"
  by (simp add: createArgument_def Let_def split: option.splits)

lemma getArguments_createArgument:
  "getArguments (snd (createArgument g pid sp s)) k =
     (if k = pid then fst (createArgument g pid sp s) # getArguments s pid
      else getArguments s k)"
  by (simp add: getArguments_def [of "snd (createArgument g pid sp s)"] args_createArgument
        map_of_objSet) (simp add: getArguments_def)

lemma posts_createArgument:
  "posts (snd (createArgument g pid sp s)) =
     (case getPost s pid of
        None \<Rightarrow> posts s
      | Some p \<Rightarrow> updateFirst (\<lambda>p. id_post p = pid) (countArgument (side_arg_spec sp)) (posts s))"
  by (simp add: createArgument_def Let_def getPost_def split: option.splits)

lemma allTags_createArgument: "allTags (snd (createArgument g pid sp s)) = allTags s"
  by (simp add: createArgument_def Let_def split: option.splits)

lemma snd_createPost:
  "snd (createPost g ga sp s) =
     (let p = \<lparr>id_post = uid g, type_post = type_spec sp, title = title_spec sp,
               body_post = body_spec sp,
               tags = (case tags_spec sp of None \<Rightarrow> [] | Some ts \<Rightarrow> ts),
               position = orNull (position_spec sp),
               confidence = orNullVal (confidence_spec sp),
               whatWouldChangeMyMind = orNull (whatWouldChangeMyMind_spec sp),
               author_post = js ''You'', createdAt_post = dateNow g,
               argCount = 0, forCount = 0, againstCount = 0, mindChanges = 0\<rparr>;
          s1 = s\<lparr>posts := p # posts s\<rparr>
      in case tags_spec sp of
           None \<Rightarrow> s1
         | Some ts \<Rightarrow>
             (let s2 = s1\<lparr>allTags := registerTags ts (allTags s1)\<rparr>
              in if addsOpening sp then
                   snd (createArgument ga (uid g)
                     \<lparr>side_arg_spec = openingSide (position_spec sp),
                      body_arg_spec = (case openingArgument_spec sp of None \<Rightarrow> [] | Some oa \<Rightarrow> oa),
                      author_arg_spec = Some (js ''You''),
                      whatWouldChangeMyMind_arg_spec = whatWouldChangeMyMind_spec sp\<rparr>
                     s2)
                 else s2))"
  by (simp add: createPost_def addsOpening_def Let_def split: option.splits)

lemma getArguments_other_fields:
  "getArguments (s\<lparr>posts := ps\<rparr>) k = getArguments s k"
  "getArguments (s\<lparr>allTags := ts\<rparr>) k = getArguments s k"
  "getArguments (s\<lparr>votes := vs\<rparr>) k = getArguments s k"
  "getArguments (s\<lparr>currentPost := c\<rparr>) k = getArguments s k"
  by (simp_all add: getArguments_def)

lemma getArguments_createPost:
  "getArguments (snd (createPost g ga sp s)) k =
     (if k = uid g \<and> addsOpening sp
      then \<lparr>id_arg = uid ga, postId = uid g, side = openingSide (position_spec sp),
            body_arg = (case openingArgument_spec sp of None \<Rightarrow> [] | Some oa \<Rightarrow> oa),
            author_arg = js ''You'', createdAt_arg = dateNow ga, steelmanned = False,
            steelmanCount = 0\<rparr> # getArguments s k
      else getArguments s k)"
proof (cases "tags_spec sp")
  case None
  then show ?thesis
    by (simp add: snd_createPost addsOpening_def Let_def getArguments_other_fields)
next
  case (Some ts)
  then show ?thesis
    by (simp add: snd_createPost Let_def getArguments_createArgument fst_createArgument
          orNull_def js_def getArguments_other_fields)
qed

lemma side_cases_neq: "js ''for'' \<noteq> js ''against''"
  by (simp add: js_def)

lemma map_id_updateFirst:
  "(\<And>x. idf (f x) = idf x) \<Longrightarrow> map idf (updateFirst P f ps) = map idf ps"
  by (induction ps) simp_all

lemma toggleLoop_sides:
  "map (\<lambda>(k, l). (k, map side l)) (snd (toggleLoop argId obj))
     = map (\<lambda>(k, l). (k, map side l)) obj"
proof (induction obj)
  case Nil
  show ?case by simp
next
  case (Cons e obj)
  obtain pid l where e: "e = (pid, l)" by (cases e)
  show ?case
    using Cons e
    by (simp add: snd_toggleLoop_Cons map_id_updateFirst side_flipSteelman
          del: toggleLoop.simps(2) split: option.splits)
qed

lemma getArguments_toggleSteelman:
  "map side (getArguments (snd (toggleSteelman argId s)) k) = map side (getArguments s k)"
proof -
  have "map_option (map side) (map_of (snd (toggleLoop argId (args s))) k)
          = map_option (map side) (map_of (args s) k)"
    using arg_cong [OF toggleLoop_sides [of argId "args s"], of "\<lambda>x. map_of x k"]
    by (simp add: map_of_map)
  then show ?thesis
    by (auto simp add: getArguments_def snd_toggleSteelman split: option.splits)
qed

lemma getArguments_vote: "getArguments (snd (vote argId d s)) k = getArguments s k"
  by (simp add: vote_def Let_def getArguments_def)

lemma getArguments_declareMindChange:
  "getArguments (declareMindChange pid text s) k = getArguments s k"
  by (simp add: declareMindChange_def getArguments_def split: option.splits)

lemma getArguments_setCurrentPost:
  "getArguments (setCurrentPost w pid s) k = getArguments s k"
  by (simp add: setCurrentPost_def getArguments_def)

lemma sides_step:
  "map side (getArguments (step x s) pid) = createdBy pid x @ map side (getArguments s pid)"
proof (cases x)
  case (CreatePost g ga sp)
  then show ?thesis by (auto simp add: getArguments_createPost)
next
  case (CreateArgument g pid' sp)
  then show ?thesis by (auto simp add: getArguments_createArgument fst_createArgument)
next
  case (Vote a d)
  then show ?thesis by (simp add: getArguments_vote)
next
  case (ToggleSteelman a)
  then show ?thesis by (simp add: getArguments_toggleSteelman)
next
  case (DeclareMindChange p t)
  then show ?thesis by (simp add: getArguments_declareMindChange)
next
  case (SetCurrentPost w p)
  then show ?thesis by (simp add: getArguments_setCurrentPost)
qed

lemma rev_createdBy: "rev (createdBy pid x) = createdBy pid x"
  by (cases x) simp_all

lemma sides_run:
  "map side (getArguments (run xs s) pid)
     = rev (createdSides pid xs) @ map side (getArguments s pid)"
proof (induction xs arbitrary: s)
  case Nil
  show ?case by (simp add: createdSides_def)
next
  case (Cons x xs)
  have "map side (getArguments (run (x # xs) s) pid)
          = rev (createdSides pid xs) @ map side (getArguments (step x s) pid)"
    using Cons [of "step x s"] by simp
  also have "\<dots> = rev (createdSides pid xs) @ createdBy pid x @ map side (getArguments s pid)"
    by (simp add: sides_step)
  also have "\<dots> = rev (createdSides pid (x # xs)) @ map side (getArguments s pid)"
    by (simp add: createdSides_def rev_createdBy)
  finally show ?case .
qed

subsection \<open>The side of an argument\<close>

text \<open>
  Claim C9, as stated, fails: \<open>createArgument('p1', {side: 'neutral', body: 'Hm.'})\<close>
  on the example store files an argument whose side is neither for nor against.
\<close>

theorem argument_side_counterexample:
  "side (fst (createArgument \<lparr>uid = js ''a2'', dateNow = 2000\<rparr> (js ''p1'') neutralSpec
            exampleStore)) = js ''neutral''
   \<and> js ''neutral'' \<noteq> js ''for'' \<and> js ''neutral'' \<noteq> js ''against''
   \<and> getArguments (snd (createArgument \<lparr>uid = js ''a2'', dateNow = 2000\<rparr> (js ''p1'')
          neutralSpec exampleStore)) (js ''p1'')
       = [fst (createArgument \<lparr>uid = js ''a2'', dateNow = 2000\<rparr> (js ''p1'') neutralSpec
                exampleStore), exampleArg]"
proof (intro conjI)
  show "side (fst (createArgument \<lparr>uid = js ''a2'', dateNow = 2000\<rparr> (js ''p1'') neutralSpec
            exampleStore)) = js ''neutral''"
    by (simp add: fst_createArgument neutralSpec_def)
  show "js ''neutral'' \<noteq> js ''for''" by (simp add: js_def)
  show "js ''neutral'' \<noteq> js ''against''" by (simp add: js_def)
  show "getArguments (snd (createArgument \<lparr>uid = js ''a2'', dateNow = 2000\<rparr> (js ''p1'')
          neutralSpec exampleStore)) (js ''p1'')
       = [fst (createArgument \<lparr>uid = js ''a2'', dateNow = 2000\<rparr> (js ''p1'') neutralSpec
                exampleStore), exampleArg]"
    by (simp add: getArguments_createArgument) (simp add: getArguments_def exampleStore_eq)
qed

lemma openingSide_eq:
  "openingSide pos = (if pos = Some (js ''against'') then js ''against'' else js ''for'')"
  by (auto simp add: openingSide_def split: option.splits)

text \<open>
  Claim C9, as the code has it, for a post identifier that has a list of arguments or is
  not a name that objects inherit. \<open>createArgument\<close> stores the side that its caller
  passes and checks nothing: the argument it returns has that side, and it is the first of
  the list of the post. The opening argument of \<open>createPost\<close> has the side against
  when the position of the post spec is against, and the side for at every other
  position (for, undecided, none, or any other string). \<open>createPost\<close> files that
  argument, first in the list of the new post, when the spec has tags and an opening
  statement that is not blank, and files nothing else, there or under any other
  identifier.
\<close>

theorem argument_side:
  "((map_of (args s) pid \<noteq> None \<or> \<not> inheritedName pid) \<longrightarrow>
      side (fst (createArgument g pid sp s)) = side_arg_spec sp
      \<and> getArguments (snd (createArgument g pid sp s)) pid
          = fst (createArgument g pid sp s) # getArguments s pid)
   \<and> openingSide pos = (if pos = Some (js ''against'') then js ''against'' else js ''for'')
   \<and> ((map_of (args s) (uid gp) \<noteq> None \<or> \<not> inheritedName (uid gp)) \<longrightarrow>
        getArguments (snd (createPost gp ga psp s)) k =
          (if k = uid gp \<and> addsOpening psp
           then \<lparr>id_arg = uid ga, postId = uid gp,
                  side = (if position_spec psp = Some (js ''against'')
                          then js ''against'' else js ''for''),
                  body_arg = (case openingArgument_spec psp of None \<Rightarrow> [] | Some oa \<Rightarrow> oa),
                  author_arg = js ''You'', createdAt_arg = dateNow ga, steelmanned = False,
                  steelmanCount = 0\<rparr> # getArguments s k
           else getArguments s k))"
proof (intro conjI impI)
  show "side (fst (createArgument g pid sp s)) = side_arg_spec sp"
    by (simp add: fst_createArgument)
  show "getArguments (snd (createArgument g pid sp s)) pid
          = fst (createArgument g pid sp s) # getArguments s pid"
    by (simp add: getArguments_createArgument)
  show "openingSide pos = (if pos = Some (js ''against'') then js ''against'' else js ''for'')"
    by (rule openingSide_eq)
  show "getArguments (snd (createPost gp ga psp s)) k =
          (if k = uid gp \<and> addsOpening psp
           then \<lparr>id_arg = uid ga, postId = uid gp,
                  side = (if position_spec psp = Some (js ''against'')
                          then js ''against'' else js ''for''),
                  body_arg = (case openingArgument_spec psp of None \<Rightarrow> [] | Some oa \<Rightarrow> oa),
                  author_arg = js ''You'', createdAt_arg = dateNow ga, steelmanned = False,
                  steelmanCount = 0\<rparr> # getArguments s k
           else getArguments s k)"
    by (simp only: getArguments_createPost openingSide_eq)
qed

lemma addsOpening_example: "addsOpening examplePostSpec"
  by (simp add: addsOpening_def examplePostSpec_def trim_def isWhiteSpace_def js_def)

lemma addsOpening_against: "addsOpening againstPostSpec"
  by (simp add: addsOpening_def againstPostSpec_def trim_def isWhiteSpace_def js_def)

lemma p1_not_inherited: "\<not> inheritedName (js ''p1'')"
  by (simp add: inheritedName_def prototypeNames_def js_def)

theorem argument_side_witness:
  "\<not> inheritedName (js ''p1'')
   \<and> side (fst (createArgument \<lparr>uid = js ''a2'', dateNow = 2000\<rparr> (js ''p1'') againstSpec
                emptyStore)) = js ''against''
   \<and> getArguments (snd (createArgument \<lparr>uid = js ''a2'', dateNow = 2000\<rparr> (js ''p1'')
          againstSpec emptyStore)) (js ''p1'')
       = [fst (createArgument \<lparr>uid = js ''a2'', dateNow = 2000\<rparr> (js ''p1'') againstSpec
                emptyStore)]
   \<and> openingSide (Some (js ''undecided'')) = js ''for''
   \<and> openingSide (Some (js ''against'')) = js ''against''
   \<and> getArguments (snd (createPost \<lparr>uid = js ''p1'', dateNow = 1000\<rparr>
          \<lparr>uid = js ''a1'', dateNow = 1001\<rparr> againstPostSpec emptyStore)) (js ''p1'')
       = [againstOpening]
   \<and> getArguments exampleStore (js ''p1'') = [exampleArg]
   \<and> side exampleArg = js ''for''"
proof -
  have h: "map_of (args emptyStore) (js ''p1'') \<noteq> None \<or> \<not> inheritedName (js ''p1'')"
    using p1_not_inherited by simp
  have h': "map_of (args emptyStore) (uid \<lparr>uid = js ''p1'', dateNow = 1000\<rparr>) \<noteq> None
            \<or> \<not> inheritedName (uid \<lparr>uid = js ''p1'', dateNow = 1000\<rparr>)"
    using p1_not_inherited by simp
  have em: "getArguments emptyStore (js ''p1'') = []"
    by (simp add: getArguments_def emptyStore_def)
  have neq: "js ''undecided'' \<noteq> js ''against''" by (simp add: js_def)
  note t1 = argument_side [where s = emptyStore and pid = "js ''p1''"
      and g = "\<lparr>uid = js ''a2'', dateNow = 2000\<rparr>" and sp = againstSpec
      and pos = "Some (js ''undecided'')"
      and gp = "\<lparr>uid = js ''p1'', dateNow = 1000\<rparr>" and ga = "\<lparr>uid = js ''a1'', dateNow = 1001\<rparr>"
      and psp = againstPostSpec and k = "js ''p1''"]
  note t2 = argument_side [where s = emptyStore and pid = "js ''p1''"
      and g = "\<lparr>uid = js ''a2'', dateNow = 2000\<rparr>" and sp = againstSpec
      and pos = "Some (js ''against'')"
      and gp = "\<lparr>uid = js ''p1'', dateNow = 1000\<rparr>" and ga = "\<lparr>uid = js ''a1'', dateNow = 1001\<rparr>"
      and psp = examplePostSpec and k = "js ''p1''"]
  note ab = t1 [THEN conjunct1, THEN mp, OF h]
  have a: "side (fst (createArgument \<lparr>uid = js ''a2'', dateNow = 2000\<rparr> (js ''p1'') againstSpec
                emptyStore)) = js ''against''"
    using ab [THEN conjunct1] by (simp add: againstSpec_def)
  have b: "getArguments (snd (createArgument \<lparr>uid = js ''a2'', dateNow = 2000\<rparr> (js ''p1'')
          againstSpec emptyStore)) (js ''p1'')
       = [fst (createArgument \<lparr>uid = js ''a2'', dateNow = 2000\<rparr> (js ''p1'') againstSpec
                emptyStore)]"
    using ab [THEN conjunct2] by (simp only: em)
  have c: "openingSide (Some (js ''undecided'')) = js ''for''"
    using t1 [THEN conjunct2, THEN conjunct1] neq by simp
  have d: "openingSide (Some (js ''against'')) = js ''against''"
    using t2 [THEN conjunct2, THEN conjunct1] by simp
  have e: "getArguments (snd (createPost \<lparr>uid = js ''p1'', dateNow = 1000\<rparr>
          \<lparr>uid = js ''a1'', dateNow = 1001\<rparr> againstPostSpec emptyStore)) (js ''p1'')
       = [againstOpening]"
    using t1 [THEN conjunct2, THEN conjunct2, THEN mp, OF h'] addsOpening_against
    by (simp add: em againstPostSpec_def againstOpening_def)
  have f: "getArguments exampleStore (js ''p1'') = [exampleArg]"
    by (simp add: getArguments_def exampleStore_eq)
  have g: "side exampleArg = js ''for''" by (simp add: exampleArg_def)
  show ?thesis
    using p1_not_inherited a b c d e f g by (intro conjI)
qed

subsection \<open>The tag vocabulary\<close>

lemma prefix_registerTags: "prefix known (registerTags ts known)"
proof (induction ts arbitrary: known)
  case Nil
  show ?case by simp
next
  case (Cons t ts)
  have "prefix known (if t \<in> set known then known else known @ [t])" by simp
  then show ?case using Cons [of "if t \<in> set known then known else known @ [t]"]
    by (metis prefix_order.order_trans registerTags.simps(2))
qed

lemma set_registerTags: "set (registerTags ts known) = set known \<union> set ts"
  by (induction ts arbitrary: known) auto

lemma distinct_registerTags: "distinct known \<Longrightarrow> distinct (registerTags ts known)"
  by (induction ts arbitrary: known) auto

lemma length_registerTags:
  "length (registerTags ts known) = length known + card (set ts - set known)"
proof (induction ts arbitrary: known)
  case Nil
  show ?case by simp
next
  case (Cons t ts)
  show ?case
  proof (cases "t \<in> set known")
    case True
    then have "set (t # ts) - set known = set ts - set known" by auto
    then show ?thesis using True Cons [of known] by simp
  next
    case False
    have eq: "set (t # ts) - set known = insert t (set ts - set (known @ [t]))"
      using False by auto
    have "card (set (t # ts) - set known) = Suc (card (set ts - set (known @ [t])))"
      unfolding eq by (rule card_insert_disjoint) auto
    then show ?thesis using False Cons [of "known @ [t]"] by simp
  qed
qed

lemma allTags_createPost:
  "allTags (snd (createPost g ga sp s)) =
     (case tags_spec sp of None \<Rightarrow> allTags s | Some ts \<Rightarrow> registerTags ts (allTags s))"
  by (simp add: snd_createPost Let_def allTags_createArgument split: option.splits)

lemma allTags_step: "prefix (allTags s) (allTags (step x s))"
proof (cases x)
  case (CreatePost g ga sp)
  then show ?thesis
    by (simp add: allTags_createPost prefix_registerTags split: option.splits)
next
  case (CreateArgument g pid sp)
  then show ?thesis by (simp add: allTags_createArgument)
next
  case (Vote a d)
  then show ?thesis by (simp add: vote_def Let_def)
next
  case (ToggleSteelman a)
  then show ?thesis by (simp add: snd_toggleSteelman)
next
  case (DeclareMindChange pid t)
  then show ?thesis by (simp add: declareMindChange_def split: option.splits)
next
  case (SetCurrentPost w pid)
  then show ?thesis by (simp add: setCurrentPost_def)
qed

lemma allTags_run: "prefix (allTags s) (allTags (run xs s))"
proof (induction xs arbitrary: s)
  case Nil
  show ?case by simp
next
  case (Cons x xs)
  have "prefix (allTags s) (allTags (step x s))" by (rule allTags_step)
  moreover have "prefix (allTags (step x s)) (allTags (run xs (step x s)))" by (rule Cons)
  ultimately have "prefix (allTags s) (allTags (run xs (step x s)))"
    by (rule prefix_order.order_trans)
  then show ?case by simp
qed

lemma zen_new: "js ''zen'' \<notin> set defaultTags"
  by (simp add: defaultTags_def js_def)

lemma length_defaultTags: "length defaultTags = 18"
  by (simp add: defaultTags_def)

text \<open>
  Claim C4, as stated, fails when the list names a new tag twice:
  \<open>createPost({type: 'question', title: 'T', body: 'B', tags: ['zen', 'zen']})\<close> on the
  empty store supplies two tags that the vocabulary does not hold, and the vocabulary
  grows by one.
\<close>

theorem tag_vocabulary_counterexample:
  "length (allTags (snd (createPost \<lparr>uid = js ''p2'', dateNow = 3000\<rparr>
      \<lparr>uid = js ''a3'', dateNow = 3001\<rparr> twiceTagSpec emptyStore)))
     = length (allTags emptyStore) + 1
   \<and> suppliedAbsent (allTags emptyStore) [js ''zen'', js ''zen''] = 2"
  by (simp add: allTags_createPost twiceTagSpec_def emptyStore_def suppliedAbsent_def zen_new)

text \<open>
  Claim C4, as the code has it. A \<open>createPost\<close> that is given a list of tags grows the
  vocabulary by the number of distinct supplied tags that it did not hold, and the
  vocabulary then holds its old tags and the supplied ones. No sequence of operations
  removes or moves a tag: the old vocabulary is a prefix of the new one.
\<close>

theorem tag_vocabulary_growth:
  "(tags_spec sp = Some ts \<longrightarrow>
      length (allTags (snd (createPost g ga sp s)))
        = length (allTags s) + card (set ts - set (allTags s))
      \<and> set (allTags (snd (createPost g ga sp s))) = set (allTags s) \<union> set ts)
   \<and> prefix (allTags s) (allTags (run xs s))"
  by (simp add: allTags_createPost length_registerTags set_registerTags allTags_run)

theorem tag_vocabulary_growth_witness:
  "tags_spec twiceTagSpec = Some [js ''zen'', js ''zen'']
   \<and> length (allTags (snd (createPost \<lparr>uid = js ''p2'', dateNow = 3000\<rparr>
        \<lparr>uid = js ''a3'', dateNow = 3001\<rparr> twiceTagSpec emptyStore)))
       = length (allTags emptyStore) + card (set [js ''zen'', js ''zen''] - set (allTags emptyStore))
   \<and> prefix (allTags emptyStore) (allTags (run exampleOps emptyStore))"
  using tag_vocabulary_growth [of twiceTagSpec "[js ''zen'', js ''zen'']" "\<lparr>uid = js ''p2'', dateNow = 3000\<rparr>"
      "\<lparr>uid = js ''a3'', dateNow = 3001\<rparr>" emptyStore exampleOps]
  by (simp add: twiceTagSpec_def)

subsection \<open>The counters of a post\<close>

lemma updateFirst_distinct:
  "distinct (map idf ps) \<Longrightarrow>
     updateFirst (\<lambda>p. idf p = i) f ps = map (\<lambda>p. if idf p = i then f p else p) ps"
proof (induction ps)
  case Nil
  show ?case by simp
next
  case (Cons p ps)
  show ?case
  proof (cases "idf p = i")
    case True
    then have "\<forall>q \<in> set ps. idf q \<noteq> i" using Cons.prems by (force simp add: image_iff)
    then have "map (\<lambda>p. if idf p = i then f p else p) ps = ps" by (simp add: map_idI)
    then show ?thesis using True by simp
  next
    case False
    then show ?thesis using Cons by simp
  qed
qed

lemma countSide_Cons:
  "countSide sd (a # l) = countSide sd l + (if side a = sd then 1 else 0)"
  by (simp add: countSide_def)

lemma countSide_map_side:
  "countSide sd l = int (length (filter (\<lambda>x. x = sd) (map side l)))"
  by (induction l) (simp_all add: countSide_def)

lemma postCounted_sides:
  assumes "map side (getArguments s' (id_post p)) = map side (getArguments s (id_post p))"
    and "id_post p' = id_post p" and "forCount p' = forCount p"
    and "againstCount p' = againstCount p" and "argCount p' = argCount p"
  shows "postCounted s' p' = postCounted s p"
proof -
  have "length (getArguments s' (id_post p)) = length (getArguments s (id_post p))"
    using assms(1) by (rule map_eq_imp_length_eq)
  then show ?thesis
    using assms by (simp add: postCounted_def countSide_map_side)
qed

lemma countArgument_fields:
  "id_post (countArgument sd p) = id_post p"
  "argCount (countArgument sd p) = argCount p + 1"
  "forCount (countArgument sd p) = forCount p + (if sd = js ''for'' then 1 else 0)"
  "againstCount (countArgument sd p) = againstCount p + (if sd = js ''against'' then 1 else 0)"
  by (simp_all add: countArgument_def Let_def)

lemma posts_createArgument_map:
  assumes "distinct (map id_post (posts s))"
  shows "posts (snd (createArgument g pid sp s)) =
     map (\<lambda>p. if id_post p = pid then countArgument (side_arg_spec sp) p else p) (posts s)"
proof (cases "getPost s pid")
  case None
  then have "\<forall>p \<in> set (posts s). id_post p \<noteq> pid"
    by (simp add: getPost_def find_None_iff)
  then have "map (\<lambda>p. if id_post p = pid then countArgument (side_arg_spec sp) p else p) (posts s)
               = posts s"
    by (simp add: map_idI)
  then show ?thesis using None by (simp add: posts_createArgument)
next
  case (Some p)
  then show ?thesis using assms by (simp add: posts_createArgument updateFirst_distinct)
qed

lemma countsInv_createArgument:
  assumes "countsInv s"
  shows "countsInv (snd (createArgument g pid sp s))"
proof -
  let ?s' = "snd (createArgument g pid sp s)"
  let ?sd = "side_arg_spec sp"
  have d: "distinct (map id_post (posts s))" using assms by (simp add: countsInv_def)
  have ps: "posts ?s' = map (\<lambda>p. if id_post p = pid then countArgument ?sd p else p) (posts s)"
    using d by (rule posts_createArgument_map)
  have ids: "map id_post (posts ?s') = map id_post (posts s)"
    unfolding ps by (simp add: o_def countArgument_fields)
  have "postCounted ?s' p'" if "p' \<in> set (posts ?s')" for p'
  proof -
    have "p' \<in> (\<lambda>p. if id_post p = pid then countArgument ?sd p else p) ` set (posts s)"
      using that by (simp add: ps)
    then obtain p where p: "p \<in> set (posts s)"
      and p': "p' = (if id_post p = pid then countArgument ?sd p else p)"
      by blast
    have c: "postCounted s p" using assms p by (simp add: countsInv_def)
    show ?thesis
    proof (cases "id_post p = pid")
      case True
      then show ?thesis
        using c p' side_cases_neq
        by (auto simp add: postCounted_def countArgument_fields getArguments_createArgument
              countSide_Cons fst_createArgument)
    next
      case False
      then show ?thesis
        using c p' by (simp add: postCounted_def getArguments_createArgument)
    qed
  qed
  then show ?thesis using d ids by (simp add: countsInv_def)
qed

lemma countsInv_cong:
  "posts s' = posts s \<Longrightarrow> args s' = args s \<Longrightarrow> countsInv s' = countsInv s"
  by (simp add: countsInv_def postCounted_def getArguments_def)

lemma countsInv_newPost:
  assumes "countsInv s" and "freshPostId s (id_post p)"
    and "argCount p = 0" and "forCount p = 0" and "againstCount p = 0"
  shows "countsInv (s\<lparr>posts := p # posts s\<rparr>)"
proof -
  have "\<forall>q \<in> set (posts s). id_post q \<noteq> id_post p"
    using assms(2) by (simp add: freshPostId_def getPost_def find_None_iff)
  moreover have "getArguments s (id_post p) = []"
    using assms(2) by (simp add: freshPostId_def getArguments_def)
  ultimately show ?thesis
    using assms
    by (auto simp add: countsInv_def postCounted_def getArguments_def countSide_def)
qed

lemma countsInv_createPost:
  assumes "countsInv s" and "freshPostId s (uid g)"
  shows "countsInv (snd (createPost g ga sp s))"
proof -
  define p where "p = \<lparr>id_post = uid g, type_post = type_spec sp, title = title_spec sp,
               body_post = body_spec sp,
               tags = (case tags_spec sp of None \<Rightarrow> [] | Some ts \<Rightarrow> ts),
               position = orNull (position_spec sp),
               confidence = orNullVal (confidence_spec sp),
               whatWouldChangeMyMind = orNull (whatWouldChangeMyMind_spec sp),
               author_post = js ''You'', createdAt_post = dateNow g,
               argCount = 0, forCount = 0, againstCount = 0, mindChanges = 0\<rparr>"
  have "countsInv (s\<lparr>posts := p # posts s\<rparr>)"
    using assms by (intro countsInv_newPost) (simp_all add: p_def)
  moreover have "countsInv (s\<lparr>posts := p # posts s, allTags := ts'\<rparr>)
                   = countsInv (s\<lparr>posts := p # posts s\<rparr>)" for ts'
    by (rule countsInv_cong) simp_all
  ultimately show ?thesis
    unfolding snd_createPost p_def [symmetric]
    by (simp add: Let_def countsInv_createArgument split: option.splits)
qed

lemma countsInv_toggleSteelman:
  assumes "countsInv s"
  shows "countsInv (snd (toggleSteelman argId s))"
proof -
  have "postCounted (snd (toggleSteelman argId s)) p = postCounted s p" for p
    by (rule postCounted_sides) (simp_all add: getArguments_toggleSteelman)
  then show ?thesis using assms by (simp add: countsInv_def snd_toggleSteelman)
qed

lemma countsInv_declareMindChange:
  assumes "countsInv s"
  shows "countsInv (declareMindChange pid text s)"
proof (cases "getPost s pid")
  case None
  then show ?thesis using assms by (simp add: declareMindChange_def)
next
  case (Some q)
  let ?f = "\<lambda>p. p\<lparr>mindChanges := mindChanges p + 1\<rparr>"
  let ?s' = "declareMindChange pid text s"
  have d: "distinct (map id_post (posts s))" using assms by (simp add: countsInv_def)
  have ps: "posts ?s' = map (\<lambda>p. if id_post p = pid then ?f p else p) (posts s)"
    using Some d by (simp add: declareMindChange_def updateFirst_distinct)
  have ids: "map id_post (posts ?s') = map id_post (posts s)"
    unfolding ps by (simp add: o_def)
  have "postCounted ?s' p'" if "p' \<in> set (posts ?s')" for p'
  proof -
    have "p' \<in> (\<lambda>p. if id_post p = pid then ?f p else p) ` set (posts s)"
      using that by (simp add: ps)
    then obtain p where p: "p \<in> set (posts s)" and p': "p' = (if id_post p = pid then ?f p else p)"
      by blast
    have "postCounted s p" using assms p by (simp add: countsInv_def)
    then show ?thesis
      using p' by (simp add: postCounted_def getArguments_declareMindChange)
  qed
  then show ?thesis using d ids by (simp add: countsInv_def)
qed

lemma countsInv_vote: "countsInv (snd (vote argId d s)) = countsInv s"
  by (rule countsInv_cong) (simp_all add: vote_def Let_def)

lemma countsInv_setCurrentPost: "countsInv (setCurrentPost w pid s) = countsInv s"
  by (rule countsInv_cong) (simp_all add: setCurrentPost_def)

lemma countsInv_run: "countsInv s \<Longrightarrow> freshRun xs s \<Longrightarrow> countsInv (run xs s)"
proof (induction xs arbitrary: s)
  case Nil
  then show ?case by simp
next
  case (Cons x xs)
  have "countsInv (step x s)"
    using Cons.prems
    by (cases x)
       (simp_all add: countsInv_createPost countsInv_createArgument countsInv_vote
          countsInv_toggleSteelman countsInv_declareMindChange countsInv_setCurrentPost)
  then show ?case using Cons by simp
qed

lemma countsInv_emptyStore: "countsInv emptyStore"
  by (simp add: countsInv_def emptyStore_def)

lemma length_filter_sides:
  "int (length (filter (\<lambda>x. x = js ''for'') l)) + int (length (filter (\<lambda>x. x = js ''against'') l))
     = int (length (filter (\<lambda>x. x = js ''for'' \<or> x = js ''against'') l))"
  using side_cases_neq by (induction l) auto

lemma length_filter_side:
  "length (filter (\<lambda>a. P (side a)) l) = length (filter P (map side l))"
  by (induction l) simp_all

text \<open>
  Claim C3. Start from the empty store and run any sequence of operations in which every
  \<open>createPost\<close> gets a fresh identifier from \<open>uid()\<close>. Then for every post,
  \<open>forCount\<close> is the number of arguments with side for that the sequence created on
  it (the opening argument included), \<open>againstCount\<close> the number with side against
  and \<open>argCount\<close> the number of all of them, which is the sum of the two when each
  has side for or against. The list of the post holds exactly these arguments, newest
  first, so \<open>forCount + againstCount\<close> is the number of the post's arguments whose
  side is for or against.
\<close>

theorem post_counters:
  assumes "freshRun xs emptyStore" and "p \<in> set (posts (run xs emptyStore))"
  shows "forCount p = int (length (filter (\<lambda>sd. sd = js ''for'') (createdSides (id_post p) xs)))
    \<and> againstCount p
        = int (length (filter (\<lambda>sd. sd = js ''against'') (createdSides (id_post p) xs)))
    \<and> argCount p = int (length (createdSides (id_post p) xs))
    \<and> (set (createdSides (id_post p) xs) \<subseteq> {js ''for'', js ''against''}
        \<longrightarrow> argCount p = forCount p + againstCount p)
    \<and> map side (getArguments (run xs emptyStore) (id_post p))
        = rev (createdSides (id_post p) xs)
    \<and> forCount p + againstCount p
        = int (length (filter (\<lambda>a. side a = js ''for'' \<or> side a = js ''against'')
                 (getArguments (run xs emptyStore) (id_post p))))"
proof -
  let ?l = "getArguments (run xs emptyStore) (id_post p)"
  let ?c = "createdSides (id_post p) xs"
  have "countsInv (run xs emptyStore)"
    using countsInv_emptyStore assms(1) by (rule countsInv_run)
  then have c: "postCounted (run xs emptyStore) p" using assms(2) by (simp add: countsInv_def)
  have sides: "map side ?l = rev ?c"
    using sides_run [of xs emptyStore "id_post p"]
    by (simp add: getArguments_def emptyStore_def)
  have len: "length ?l = length ?c"
    using arg_cong [OF sides, of length] by simp
  have cnt: "countSide sd ?l = int (length (filter (\<lambda>x. x = sd) ?c))" for sd
    by (simp only: countSide_map_side sides rev_filter [symmetric] length_rev)
  have f: "forCount p = int (length (filter (\<lambda>sd. sd = js ''for'') ?c))"
    and a: "againstCount p = int (length (filter (\<lambda>sd. sd = js ''against'') ?c))"
    and n: "argCount p = int (length ?c)"
    using c cnt len by (simp_all add: postCounted_def)
  have all: "set ?c \<subseteq> {js ''for'', js ''against''} \<longrightarrow> argCount p = forCount p + againstCount p"
  proof
    assume "set ?c \<subseteq> {js ''for'', js ''against''}"
    then have "\<forall>x \<in> set ?c. x = js ''for'' \<or> x = js ''against''"
      by (simp add: subset_iff)
    then have "filter (\<lambda>x. x = js ''for'' \<or> x = js ''against'') ?c = ?c"
      by (simp only: filter_id_conv)
    then have "int (length (filter (\<lambda>x. x = js ''for'' \<or> x = js ''against'') ?c))
                 = int (length ?c)"
      by (simp only:)
    then show "argCount p = forCount p + againstCount p"
      using f a n length_filter_sides [of ?c] by (simp only:)
  qed
  have "length (filter (\<lambda>a. side a = js ''for'' \<or> side a = js ''against'') ?l)
          = length (filter (\<lambda>x. x = js ''for'' \<or> x = js ''against'') (map side ?l))"
    by (rule length_filter_side)
  also have "\<dots> = length (filter (\<lambda>x. x = js ''for'' \<or> x = js ''against'') ?c)"
    by (simp only: sides rev_filter [symmetric] length_rev)
  finally have "int (length (filter (\<lambda>a. side a = js ''for'' \<or> side a = js ''against'') ?l))
          = int (length (filter (\<lambda>x. x = js ''for'' \<or> x = js ''against'') ?c))"
    by (simp only:)
  then have sum: "forCount p + againstCount p
      = int (length (filter (\<lambda>a. side a = js ''for'' \<or> side a = js ''against'') ?l))"
    using f a length_filter_sides [of ?c] by (simp only:)
  show ?thesis
    by (intro conjI) (fact f a n all sides sum)+
qed

lemma freshRun_exampleOps: "freshRun exampleOps emptyStore"
  by (simp add: exampleOps_def freshPostId_def getPost_def emptyStore_def)

lemma posts_run_exampleOps: "posts (run exampleOps emptyStore) = [exampleFinalPost]"
proof -
  have "run exampleOps emptyStore
          = run [CreateArgument \<lparr>uid = js ''a2'', dateNow = 2000\<rparr> (js ''p1'') againstSpec,
                 Vote (js ''a2'') Up, ToggleSteelman (js ''a1'')] exampleStore"
    by (simp add: exampleOps_def exampleStore_def)
  moreover have "posts (snd (createArgument \<lparr>uid = js ''a2'', dateNow = 2000\<rparr> (js ''p1'')
                    againstSpec exampleStore)) = [exampleFinalPost]"
    by (simp add: posts_createArgument getPost_def exampleStore_eq againstSpec_def
          countArgument_def exampleFinalPost_def examplePost_def Let_def js_def)
  ultimately show ?thesis
    by (simp add: snd_toggleSteelman vote_def Let_def)
qed

lemma createdSides_exampleOps:
  "createdSides (js ''p1'') exampleOps = [js ''for'', js ''against'']"
  by (simp add: createdSides_def exampleOps_def addsOpening_example againstSpec_def)
     (simp add: examplePostSpec_def openingSide_def js_def)

theorem post_counters_witness:
  "freshRun exampleOps emptyStore
   \<and> exampleFinalPost \<in> set (posts (run exampleOps emptyStore))
   \<and> createdSides (id_post exampleFinalPost) exampleOps = [js ''for'', js ''against'']
   \<and> forCount exampleFinalPost = 1 \<and> againstCount exampleFinalPost = 1
   \<and> argCount exampleFinalPost = 2
   \<and> map side (getArguments (run exampleOps emptyStore) (id_post exampleFinalPost))
       = [js ''against'', js ''for'']"
proof -
  have h1: "freshRun exampleOps emptyStore" by (rule freshRun_exampleOps)
  have h2: "exampleFinalPost \<in> set (posts (run exampleOps emptyStore))"
    by (simp add: posts_run_exampleOps)
  have i: "id_post exampleFinalPost = js ''p1''"
    by (simp add: exampleFinalPost_def examplePost_def)
  show ?thesis
    using post_counters [OF h1 h2] h1 h2 side_cases_neq
    by (simp add: i createdSides_exampleOps)
qed

subsection \<open>Rendering\<close>

lemma sublist_skip: "sublist xs ys \<Longrightarrow> sublist xs (zs @ ys)"
  by (metis sublist_append_leftI sublist_order.order_trans)

lemma sublist_tagSpan: "sublist tag (tagSpan tag)"
  unfolding tagSpan_def by (rule sublist_appendI)

lemma sublist_concat_map: "x \<in> set xs \<Longrightarrow> sublist (f x) (concat (map f xs))"
proof -
  assume "x \<in> set xs"
  then obtain as bs where "xs = as @ x # bs" by (meson split_list)
  then have "concat (map f xs) = concat (map f as) @ f x @ concat (map f bs)" by simp
  then show ?thesis by (simp only: sublist_appendI)
qed

lemma sublist_tagHtml:
  "sublist (concat (map tagSpan (take 3 (tags post)))) (renderPostCard now post)"
  unfolding renderPostCard_def Let_def
  by (rule sublist_append_rightI | rule sublist_skip)+

lemma tag_in_postCard:
  assumes "tag \<in> set (take 3 (tags post))"
  shows "sublist tag (renderPostCard now post)"
proof -
  have "sublist tag (tagSpan tag)" by (rule sublist_tagSpan)
  also have "sublist (tagSpan tag) (concat (map tagSpan (take 3 (tags post))))"
    using assms by (rule sublist_concat_map)
  also have "sublist \<dots> (renderPostCard now post)" by (rule sublist_tagHtml)
  finally show ?thesis .
qed

lemma initials_in_argCard:
  "sublist (toUpperCase (initialsOf (author_arg arg))) (renderArgCard toUpperCase now s arg pid)"
  unfolding renderArgCard_def Let_def
  by (rule sublist_append_rightI | rule sublist_skip)+

lemma escHtml_markupTag:
  \<open>escHtml markupTag = js ''&lt;img src=x onerror=&quot;alert(1)&quot;&gt;''\<close>
  by (simp add: escHtml_def markupTag_def replaceAll_def js_def)

lemma replaceAll_set:
  "set (replaceAll c rep str) = (set str - {c}) \<union> (if c \<in> set str then set rep else {})"
  by (induction str) (auto simp add: replaceAll_def)

lemma escHtml_no_markup:
  "60 \<notin> set (escHtml str) \<and> 62 \<notin> set (escHtml str) \<and> 34 \<notin> set (escHtml str)"
  by (simp add: escHtml_def replaceAll_set js_def)

lemma title_in_postCard: "sublist (escHtml (title post)) (renderPostCard now post)"
  unfolding renderPostCard_def Let_def
  by (rule sublist_append_rightI | rule sublist_skip)+

lemma body_in_postCard:
  "sublist (escHtml (take 140 (body_post post))) (renderPostCard now post)"
  unfolding renderPostCard_def Let_def
  by (rule sublist_append_rightI | rule sublist_skip)+

lemma author_in_argCard:
  "sublist (escHtml (author_arg arg)) (renderArgCard toUpperCase now s arg pid)"
  unfolding renderArgCard_def Let_def
  by (rule sublist_append_rightI | rule sublist_skip)+

lemma initialsOf_markup: "initialsOf (js ''<b <i'') = js ''<<''"
  by (simp add: initialsOf_def js_def)

text \<open>
  Claim C1. The claim is that the cards escape every free-text field, the tags included.
  \<open>renderPostCard\<close> escapes the title and the body and writes each of the first
  three tags as it is (lemma \<open>tag_in_postCard\<close>): for a post whose tag is
  \<open><img src=x onerror="alert(1)">\<close> the card holds that markup, where
  \<open>escHtml\<close> would have written \<open>&lt;img src=x onerror=&quot;alert(1)&quot;&gt;\<close>.
  \<open>renderArgCard\<close> escapes the author's name and writes the initials taken from
  it as they are (lemma \<open>initials_in_argCard\<close>): for the author \<open><b <i\<close> the
  card holds the upper case of \<open><<\<close>, whatever \<open>toUpperCase\<close> is.
\<close>

theorem cards_write_raw_text:
  "sublist markupTag (renderPostCard 5000 markupPost)
   \<and> escHtml markupTag \<noteq> markupTag
   \<and> sublist (toUpperCase (js ''<<''))
        (renderArgCard toUpperCase 5000 exampleStore markupArg (js ''p1''))"
proof (intro conjI)
  show "sublist markupTag (renderPostCard 5000 markupPost)"
    by (rule tag_in_postCard) (simp add: markupPost_def)
  show "escHtml markupTag \<noteq> markupTag"
    by (simp add: escHtml_markupTag) (simp add: markupTag_def js_def)
  have "author_arg markupArg = js ''<b <i''" by (simp add: markupArg_def)
  then have "toUpperCase (js ''<<'') = toUpperCase (initialsOf (author_arg markupArg))"
    by (simp only: initialsOf_markup)
  then show "sublist (toUpperCase (js ''<<''))
        (renderArgCard toUpperCase 5000 exampleStore markupArg (js ''p1''))"
    by (simp only: initials_in_argCard)
qed

end
